theory Spec2Isabelle
  imports Main "HOL-Library.Sublist"
begin

section \<open>Python values, dictionaries and exceptions\<close>

text \<open>
  The handlers of \<^verbatim>\<open>app/api/endpoints\<close> work on strings, on values that are either a
  string or Python's \<^verbatim>\<open>None\<close>, and on dictionaries keyed by strings. A value that may be
  \<^verbatim>\<open>None\<close> is a \<open>string option\<close>; a dictionary is a map from keys to such values, so that
  a key that is absent (\<open>d k = None\<close>) and a key bound to \<^verbatim>\<open>None\<close>
  (\<open>d k = Some None\<close>) stay apart.

  A Python string is a sequence of Unicode code points, the surrogates U+D800 to U+DFFF
  among them, which UTF-8 cannot encode. The model writes strings with the characters
  of \<open>string\<close>; which of these stand for surrogates is a parameter of the deployment
  (\<open>surrogate\<close> below), so that every property holds however it is chosen.
\<close>

type_synonym pyval = "string option"

type_synonym pydict = "string \<rightharpoonup> pyval"

text \<open>\<^verbatim>\<open>d.get(k)\<close>: the value, \<^verbatim>\<open>None\<close> for an absent key.\<close>

definition dict_get :: "pydict \<Rightarrow> string \<Rightarrow> pyval" where
  "dict_get d k = (case d k of None \<Rightarrow> None | Some v \<Rightarrow> v)"

text \<open>\<^verbatim>\<open>d.get(k, default)\<close>: the default stands in for an absent key only.\<close>

definition dict_get_default :: "pydict \<Rightarrow> string \<Rightarrow> pyval \<Rightarrow> pyval" where
  "dict_get_default d k dflt = (case d k of None \<Rightarrow> dflt | Some v \<Rightarrow> v)"

text \<open>\<^verbatim>\<open>not v\<close> for a value that is \<^verbatim>\<open>None\<close> or a string: true of \<^verbatim>\<open>None\<close> and of \<^verbatim>\<open>""\<close>.\<close>

definition falsy :: "pyval \<Rightarrow> bool" where
  "falsy v = (case v of None \<Rightarrow> True | Some s \<Rightarrow> s = [])"

text \<open>
  The exceptions of class \<^verbatim>\<open>Exception\<close> that reach the handlers: the \<^verbatim>\<open>HTTPException\<close>
  the handlers raise themselves (status code and detail), the \<^verbatim>\<open>KeyError\<close> of a
  subscript on a dictionary, the \<^verbatim>\<open>IndexError\<close> of a subscript on a list, the
  \<^verbatim>\<open>UnicodeEncodeError\<close> of encoding a string that holds a surrogate, and whatever a
  collaborator (the OAuth client, the database driver, the token library) raises, kept
  with its class name and message. Signals outside that class (the cancellation of a
  task, the exit of the interpreter) are not failures of a request and are left out.
\<close>

datatype exn =
    HTTPException nat string
  | KeyError string
  | IndexError
  | UnicodeEncodeError
  | Raised string string

text \<open>\<^verbatim>\<open>xs[i]\<close> for a non-negative index: out of range raises.\<close>

fun py_index :: "'a list \<Rightarrow> nat \<Rightarrow> exn + 'a" where
  "py_index [] i = Inl IndexError"
| "py_index (x # xs) 0 = Inr x"
| "py_index (x # xs) (Suc i) = py_index xs i"

text \<open>
  \<^verbatim>\<open>s.split(sep)\<close> with a one-character separator: every occurrence of the separator
  cuts, and empty pieces are kept, so the result is never empty.
\<close>

fun py_split :: "char \<Rightarrow> string \<Rightarrow> string list" where
  "py_split sep [] = [[]]"
| "py_split sep (c # cs) =
     (if c = sep then [] # py_split sep cs
      else (case py_split sep cs of
              [] \<Rightarrow> [[c]]
            | w # ws \<Rightarrow> (c # w) # ws))"

section \<open>Requests, responses and the user row\<close>

record request =
  headers :: "string \<rightharpoonup> string"
  query_params :: "string \<rightharpoonup> string"

text \<open>
  A row of the user table as the repository hands it to the handlers, and the fields of
  \<^verbatim>\<open>UserResponse\<close> (\<^verbatim>\<open>app/schemas/user.py\<close>): \<^verbatim>\<open>name\<close> and \<^verbatim>\<open>picture\<close> are
  \<^verbatim>\<open>Optional[str]\<close>. The identifier is kept in its string form.
\<close>

record user =
  row_id :: string
  email :: string
  name :: pyval
  picture :: pyval
  provider :: string
  created_at :: nat

datatype response =
    RedirectResponse string
  | UserResponse user

section \<open>The collaborators of the handlers\<close>

text \<open>
  \<^verbatim>\<open>app.services.auth_service\<close>, \<^verbatim>\<open>app.repositories.user_repo\<close> and
  \<^verbatim>\<open>app.core.config.settings\<close> are called by the handlers and are not part of the
  sources at hand, so the handlers take them as parameters. Each call either raises
  (\<open>Inl\<close>) or returns (\<open>Inr\<close>); the upsert also returns the database it leaves.
  \<open>exc_str\<close> is Python's \<^verbatim>\<open>str(e)\<close>, which every exception class defines for itself
  and which, like any call, may raise instead of returning the text.
\<close>

record 'db services =
  FRONTEND_URL :: pyval
  authorize_access_token :: "request \<Rightarrow> exn + pydict"
  get_google_user_info :: "string \<Rightarrow> exn + pydict"
  login_or_register_oauth_user ::
    "'db \<Rightarrow> pyval \<Rightarrow> pyval \<Rightarrow> pyval \<Rightarrow> string \<Rightarrow> (exn + user) \<times> 'db"
  create_access_token :: "(string \<times> string) list \<Rightarrow> exn + string"
  verify_token :: "string \<Rightarrow> exn + pyval"
  find_by_id :: "'db \<Rightarrow> string \<Rightarrow> exn + user option"
  exc_str :: "exn \<Rightarrow> exn + string"
  surrogate :: "char \<Rightarrow> bool"

section \<open>The health endpoint\<close>

text \<open>
  \<^verbatim>\<open>health()\<close> of \<^verbatim>\<open>app/api/endpoints/health.py\<close> takes no argument. It is modelled as
  the framework calls it: in some state of the world \<open>w\<close> (the database included), which
  it hands back untouched next to the dictionary it returns. The response model
  \<^verbatim>\<open>Message\<close> of \<^verbatim>\<open>app.schemas.common\<close> is not in the sources; the dictionary is
  what the handler returns.
\<close>

definition health :: "'w \<Rightarrow> (string \<rightharpoonup> string) \<times> 'w" where
  "health w = ([''message'' \<mapsto> ''ok''], w)"

section \<open>The session endpoints\<close>

text \<open>\<^verbatim>\<open>settings.FRONTEND_URL or "http://localhost:7010"\<close>.\<close>

definition frontend_url :: "'db services \<Rightarrow> string" where
  "frontend_url env =
     (case FRONTEND_URL env of
        None \<Rightarrow> ''http://localhost:7010''
      | Some u \<Rightarrow> if u = [] then ''http://localhost:7010'' else u)"

text \<open>
  \<^verbatim>\<open>RedirectResponse(url=...)\<close>: Starlette's constructor percent-quotes the URL as
  UTF-8 for the \<^verbatim>\<open>Location\<close> header, and so raises \<^verbatim>\<open>UnicodeEncodeError\<close> on a URL
  that holds a surrogate. The response keeps the URL as the handler wrote it; the
  handler itself escapes nothing.
\<close>

definition redirect_response :: "'db services \<Rightarrow> string \<Rightarrow> exn + response" where
  "redirect_response env url =
     (if list_ex (surrogate env) url then Inl UnicodeEncodeError
      else Inr (RedirectResponse url))"

text \<open>
  The \<^verbatim>\<open>try\<close> block of \<^verbatim>\<open>google_callback\<close>: \<open>Inl e\<close> when a step raises \<open>e\<close>, else
  the redirect that carries the token. The database is the one the upsert left, also
  when a later step raises.
\<close>

definition google_callback_try ::
  "'db services \<Rightarrow> request \<Rightarrow> 'db \<Rightarrow> (exn + response) \<times> 'db" where
  "google_callback_try env request db =
     (case authorize_access_token env request of
        Inl e \<Rightarrow> (Inl e, db)
      | Inr token \<Rightarrow>
          (case dict_get token ''access_token'' of
             None \<Rightarrow> (Inl (HTTPException 400 ''Failed to get access token''), db)
           | Some access_token \<Rightarrow>
               if access_token = []
               then (Inl (HTTPException 400 ''Failed to get access token''), db)
               else
                 (case get_google_user_info env access_token of
                    Inl e \<Rightarrow> (Inl e, db)
                  | Inr user_info \<Rightarrow>
                      (case user_info ''email'' of
                         None \<Rightarrow> (Inl (KeyError ''email''), db)
                       | Some email_v \<Rightarrow>
                           (case login_or_register_oauth_user env db email_v
                                   (dict_get_default user_info ''name'' (Some []))
                                   (dict_get_default user_info ''picture'' (Some []))
                                   ''google'' of
                              (Inl e, db') \<Rightarrow> (Inl e, db')
                            | (Inr u, db') \<Rightarrow>
                                (case create_access_token env [(''sub'', row_id u)] of
                                   Inl e \<Rightarrow> (Inl e, db')
                                 | Inr jwt_token \<Rightarrow>
                                     (case redirect_response env
                                             (frontend_url env @ ''/auth/callback?token=''
                                                @ jwt_token) of
                                        Inl e \<Rightarrow> (Inl e, db')
                                      | Inr resp \<Rightarrow> (Inr resp, db'))))))))"

text \<open>
  \<^verbatim>\<open>google_callback\<close>: the \<^verbatim>\<open>try\<close> block under \<^verbatim>\<open>except Exception as e\<close>. The
  three lines of the \<^verbatim>\<open>except\<close> clause are themselves outside the \<^verbatim>\<open>try\<close>: they
  take the frontend URL, format \<^verbatim>\<open>str(e)\<close> behind \<^verbatim>\<open>/login?error=\<close> and build the
  redirect, and an exception of \<^verbatim>\<open>str(e)\<close> or of the constructor leaves the handler.
  The result is a sum like that of every handler, \<open>Inl\<close> standing for an exception that
  leaves the handler (which the framework answers with an error response).
\<close>

definition google_callback ::
  "'db services \<Rightarrow> request \<Rightarrow> 'db \<Rightarrow> (exn + response) \<times> 'db" where
  "google_callback env request db =
     (case google_callback_try env request db of
        (Inr resp, db') \<Rightarrow> (Inr resp, db')
      | (Inl e, db') \<Rightarrow>
          (case exc_str env e of
             Inl e' \<Rightarrow> (Inl e', db')
           | Inr msg \<Rightarrow>
               (redirect_response env (frontend_url env @ ''/login?error='' @ msg), db')))"

text \<open>
  \<^verbatim>\<open>get_current_user\<close>: an \<^verbatim>\<open>HTTPException\<close> it raises is the response status the
  framework sends. The handler reads the database and does not change it. The last
  branch stands for the stored row handed to \<^verbatim>\<open>UserResponse\<close>; the validation that
  pydantic applies to it there is not modelled.
\<close>

definition get_current_user :: "'db services \<Rightarrow> request \<Rightarrow> 'db \<Rightarrow> exn + response" where
  "get_current_user env request db =
     (case headers request ''Authorization'' of
        None \<Rightarrow> Inl (HTTPException 401 ''Missing or invalid authorization header'')
      | Some auth_header \<Rightarrow>
          if auth_header = [] \<or> \<not> prefix ''Bearer '' auth_header
          then Inl (HTTPException 401 ''Missing or invalid authorization header'')
          else
            (case py_index (py_split CHR '' '' auth_header) 1 of
               Inl e \<Rightarrow> Inl e
             | Inr token \<Rightarrow>
                 (case verify_token env token of
                    Inl e \<Rightarrow> Inl e
                  | Inr None \<Rightarrow> Inl (HTTPException 401 ''Invalid or expired token'')
                  | Inr (Some user_id) \<Rightarrow>
                      if user_id = []
                      then Inl (HTTPException 401 ''Invalid or expired token'')
                      else
                        (case find_by_id env db user_id of
                           Inl e \<Rightarrow> Inl e
                         | Inr None \<Rightarrow> Inl (HTTPException 404 ''User not found'')
                         | Inr (Some u) \<Rightarrow> Inr (UserResponse u)))))"

section \<open>The user table and the upsert service\<close>

text \<open>
  Modelled from the spec: the User Upsert Service (\<^verbatim>\<open>login_or_register_oauth_user\<close> of
  \<^verbatim>\<open>app.services.auth_service\<close> and the repository \<^verbatim>\<open>app.repositories.user_repo\<close>
  under it are not in the sources). The table is the list of its rows in insertion
  order. The contract of section 4.3: look up by email; if absent, insert a new row with
  the given fields, a generated identifier and a creation timestamp; if present, return
  the existing row unchanged. The generated identifier and the clock reading are
  arguments.
\<close>

definition find_by_email :: "user list \<Rightarrow> string \<Rightarrow> user option" where
  "find_by_email tbl em = find (\<lambda>u. email u = em) tbl"

definition login_or_create ::
  "user list \<Rightarrow> string \<Rightarrow> nat \<Rightarrow> string \<Rightarrow> pyval \<Rightarrow> pyval \<Rightarrow> string \<Rightarrow> user \<times> user list" where
  "login_or_create tbl new_id now em nm pic prov =
     (case find_by_email tbl em of
        Some u \<Rightarrow> (u, tbl)
      | None \<Rightarrow>
          (let u = \<lparr>row_id = new_id, email = em, name = nm, picture = pic,
                     provider = prov, created_at = now\<rparr>
           in (u, tbl @ [u])))"

text \<open>
  Modelled from the spec: concurrent callbacks (sections 4.3 and 5). A callback is not
  atomic: its lookup and its insert are two steps, and steps of other callbacks may run
  between them. The insert is guarded by the uniqueness constraint of the storage layer
  (section 5); a callback whose insert is refused looks the row up again (section 4.3,
  alternative (a)). A schedule that runs the two steps of each callback back to back is
  the serialised alternative (b).
\<close>

definition insert_user :: "user list \<Rightarrow> user \<Rightarrow> user list option" where
  "insert_user tbl u =
     (if email u \<in> set (map email tbl) then None else Some (tbl @ [u]))"

datatype stage = Lookup | Insert | Finished user

record callback =
  cb_email :: string
  cb_name :: pyval
  cb_picture :: pyval
  cb_provider :: string
  cb_new_id :: string
  cb_now :: nat
  cb_stage :: stage

definition new_row :: "callback \<Rightarrow> user" where
  "new_row c = \<lparr>row_id = cb_new_id c, email = cb_email c, name = cb_name c,
                 picture = cb_picture c, provider = cb_provider c, created_at = cb_now c\<rparr>"

definition cb_step :: "callback \<Rightarrow> user list \<Rightarrow> callback \<times> user list" where
  "cb_step c tbl =
     (case cb_stage c of
        Lookup \<Rightarrow>
          (case find_by_email tbl (cb_email c) of
             Some u \<Rightarrow> (c\<lparr>cb_stage := Finished u\<rparr>, tbl)
           | None \<Rightarrow> (c\<lparr>cb_stage := Insert\<rparr>, tbl))
      | Insert \<Rightarrow>
          (case insert_user tbl (new_row c) of
             Some tbl' \<Rightarrow> (c\<lparr>cb_stage := Finished (new_row c)\<rparr>, tbl')
           | None \<Rightarrow> (c\<lparr>cb_stage := Lookup\<rparr>, tbl))
      | Finished u \<Rightarrow> (c, tbl))"

text \<open>
  A schedule names, step by step, the callback that moves next (an index that names no
  callback is skipped).
\<close>

fun run :: "nat list \<Rightarrow> callback list \<times> user list \<Rightarrow> callback list \<times> user list" where
  "run [] s = s"
| "run (i # sched) (cs, tbl) =
     (if i < length cs
      then (case cb_step (cs ! i) tbl of (c', tbl') \<Rightarrow> run sched (cs[i := c'], tbl'))
      else run sched (cs, tbl))"

text \<open>
  What a finished callback holds is a stored row of its own email; a callback that has
  not finished holds nothing yet.
\<close>

definition settled :: "callback \<Rightarrow> user list \<Rightarrow> bool" where
  "settled c tbl =
     (case cb_stage c of
        Finished u \<Rightarrow> u \<in> set tbl \<and> email u = cb_email c
      | _ \<Rightarrow> True)"

section \<open>The token codec\<close>

text \<open>
  Modelled from the spec: the Token Codec (\<^verbatim>\<open>create_access_token\<close> and
  \<^verbatim>\<open>verify_token\<close> of \<^verbatim>\<open>app.services.auth_service\<close> are not in the sources).
  Section 4.1: \<^verbatim>\<open>issue\<close> produces a signed string embedding the subject and an
  expiry computed from a fixed validity window; \<^verbatim>\<open>verify\<close> checks the signature and
  the expiry and returns the subject on success. The token is the content of that string:
  subject, expiry and signature. \<open>sign\<close> is the signature under the process-wide key,
  \<open>window\<close> the validity window and \<open>now\<close> the clock, in seconds.
\<close>

record 'sig token =
  tok_sub :: string
  tok_exp :: nat
  tok_sig :: 'sig

definition issue :: "(string \<times> nat \<Rightarrow> 'sig) \<Rightarrow> nat \<Rightarrow> nat \<Rightarrow> string \<Rightarrow> 'sig token" where
  "issue sign window now subject =
     \<lparr>tok_sub = subject, tok_exp = now + window,
      tok_sig = sign (subject, now + window)\<rparr>"

definition verify :: "(string \<times> nat \<Rightarrow> 'sig) \<Rightarrow> nat \<Rightarrow> 'sig token \<Rightarrow> string option" where
  "verify sign now t =
     (if tok_sig t = sign (tok_sub t, tok_exp t) \<and> now < tok_exp t
      then Some (tok_sub t) else None)"

section \<open>An example deployment\<close>

text \<open>
  Concrete collaborators on which the handlers can be run. \<open>py_str\<close> is \<^verbatim>\<open>str(e)\<close> as
  Python and Starlette define it: status and detail for an \<^verbatim>\<open>HTTPException\<close>, the
  key between quotes for a \<^verbatim>\<open>KeyError\<close> (right for a key that holds neither quote
  nor backslash, as the keys here), the message otherwise (for a
  \<^verbatim>\<open>UnicodeEncodeError\<close> its last part, the character and position being left out).
  The character \<open>0xFF\<close> stands for a surrogate.
\<close>

fun str_nat :: "nat \<Rightarrow> string" where
  "str_nat n =
     (if n < 10 then [''0123456789'' ! n]
      else str_nat (n div 10) @ [''0123456789'' ! (n mod 10)])"

declare str_nat.simps [simp del]

fun py_str :: "exn \<Rightarrow> string" where
  "py_str (HTTPException status detail) = str_nat status @ '': '' @ detail"
| "py_str (KeyError k) = [CHR 0x27] @ k @ [CHR 0x27]"
| "py_str IndexError = ''list index out of range''"
| "py_str UnicodeEncodeError = ''surrogates not allowed''"
| "py_str (Raised cls msg) = msg"

text \<open>
  The identity provider accepts the code \<^verbatim>\<open>good\<close>, answers the code \<^verbatim>\<open>empty\<close>
  without an access token and rejects every other code; the profile it serves has an
  email and neither name nor picture. The upsert stores a row with the fields it is
  given; a token is \<^verbatim>\<open>jwt.\<close> followed by the subject.
\<close>

definition demo_services :: "user list services" where
  "demo_services =
     \<lparr>FRONTEND_URL = Some ''https://app.example'',
      authorize_access_token =
        (\<lambda>r. if query_params r ''code'' = Some ''good''
              then Inr [''access_token'' \<mapsto> Some ''ya29.a0'']
              else if query_params r ''code'' = Some ''empty''
              then Inr Map.empty
              else Inl (Raised ''OAuthError'' ''invalid_grant: Bad Request'')),
      get_google_user_info = (\<lambda>access_token. Inr [''email'' \<mapsto> Some ''ann@example.com'']),
      login_or_register_oauth_user =
        (\<lambda>db em nm pic prov.
           case em of
             None \<Rightarrow> (Inl (Raised ''NotNullViolationError'' ''null value in column email''), db)
           | Some e \<Rightarrow>
               (Inr \<lparr>row_id = ''7f9c'', email = e, name = nm, picture = pic,
                     provider = prov, created_at = 0\<rparr>,
                db @ [\<lparr>row_id = ''7f9c'', email = e, name = nm, picture = pic,
                       provider = prov, created_at = 0\<rparr>])),
      create_access_token =
        (\<lambda>data. case map_of data ''sub'' of
                   None \<Rightarrow> Inl (KeyError ''sub'')
                 | Some s \<Rightarrow> Inr (''jwt.'' @ s)),
      verify_token =
        (\<lambda>t. if prefix ''jwt.'' t then Inr (Some (drop 4 t)) else Inr None),
      find_by_id = (\<lambda>db i. Inr (find (\<lambda>u. row_id u = i) db)),
      exc_str = (\<lambda>e. Inr (py_str e)),
      surrogate = (\<lambda>c. c = CHR 0xFF)\<rparr>"

text \<open>The same deployment with a database whose upsert fails.\<close>

definition broken_db_services :: "user list services" where
  "broken_db_services =
     demo_services
       \<lparr>login_or_register_oauth_user :=
          (\<lambda>db em nm pic prov.
             (Inl (Raised ''InterfaceError''
                     ''cannot perform operation: another operation is in progress''),
              db))\<rparr>"

text \<open>
  The same deployment with an identity provider whose error description holds a
  surrogate, and with an exception whose \<^verbatim>\<open>__str__\<close> does not return a string.
\<close>

definition garbled_services :: "user list services" where
  "garbled_services =
     demo_services
       \<lparr>authorize_access_token :=
          (\<lambda>r. Inl (Raised ''OAuthError'' (''invalid_grant: '' @ [CHR 0xFF])))\<rparr>"

definition mute_services :: "user list services" where
  "mute_services =
     demo_services
       \<lparr>exc_str :=
          (\<lambda>e. Inl (Raised ''TypeError'' ''__str__ returned non-string (type NoneType)''))\<rparr>"

definition callback_request :: "string \<Rightarrow> request" where
  "callback_request code =
     \<lparr>headers = Map.empty, query_params = [''code'' \<mapsto> code, ''state'' \<mapsto> ''x7''] \<rparr>"

definition me_request :: "string \<Rightarrow> request" where
  "me_request auth = \<lparr>headers = [''Authorization'' \<mapsto> auth], query_params = Map.empty\<rparr>"

text \<open>A first-time callback for Ann's email that would store the identifier \<open>i\<close>.\<close>

definition first_login :: "string \<Rightarrow> callback" where
  "first_login i =
     \<lparr>cb_email = ''ann@example.com'', cb_name = Some ''Ann'', cb_picture = None,
      cb_provider = ''google'', cb_new_id = i, cb_now = 5, cb_stage = Lookup\<rparr>"

section \<open>Properties of the health endpoint\<close>

text \<open>
  Claim C9. Every call of the health handler returns the dictionary
  \<^verbatim>\<open>{"message": "ok"}\<close>, whatever the state of the database or of anything else: the
  result is the same in any two states, it holds the one key \<^verbatim>\<open>message\<close> bound to
  \<^verbatim>\<open>ok\<close>, and the state is left as it was.
\<close>

theorem health_ok:
  "fst (health w) = [''message'' \<mapsto> ''ok'']
   \<and> fst (health w) ''message'' = Some ''ok''
   \<and> dom (fst (health w)) = {''message''}
   \<and> fst (health w) = fst (health w')
   \<and> snd (health w) = w"
  by (simp add: health_def)


section \<open>Properties of the current-user endpoint\<close>

lemma py_split_nonempty: "py_split sep s \<noteq> []"
  by (induction s) (auto split: list.splits)

lemma py_split_hd: "hd (py_split sep s) = takeWhile (\<lambda>c. c \<noteq> sep) s"
  by (induction s) (auto simp: py_split_nonempty split: list.splits)

lemma py_split_bearer:
  "py_split CHR '' '' (''Bearer '' @ r) = ''Bearer'' # py_split CHR '' '' r"
  by simp

text \<open>
  On a header that starts with \<^verbatim>\<open>Bearer\<close> and a space the subscript \<^verbatim>\<open>[1]\<close> never
  raises: the token is what stands between that space and the next one.
\<close>

lemma bearer_token:
  assumes "prefix ''Bearer '' h"
  shows "py_index (py_split CHR '' '' h) 1 =
           Inr (takeWhile (\<lambda>c. c \<noteq> CHR '' '') (drop 7 h))"
proof -
  from assms obtain r where h: "h = ''Bearer '' @ r"
    by (auto simp: prefix_def)
  obtain w ws where s: "py_split CHR '' '' r = w # ws"
    using py_split_nonempty [of "CHR '' ''" r] by (cases "py_split CHR '' '' r") auto
  have "w = takeWhile (\<lambda>c. c \<noteq> CHR '' '') r"
    using py_split_hd [of "CHR '' ''" r] s by simp
  then show ?thesis
    using s unfolding h py_split_bearer by simp
qed

text \<open>
  Claim C7. A request to \<^verbatim>\<open>/auth/me\<close> whose \<^verbatim>\<open>Authorization\<close> header is absent, or
  does not start with \<^verbatim>\<open>Bearer\<close> and a space, or carries a token that fails
  verification (\<^verbatim>\<open>verify_token\<close> returns \<^verbatim>\<open>None\<close> or an empty subject), raises
  \<^verbatim>\<open>HTTPException\<close> with status 401: the handler returns no user, whatever the
  database holds and whatever the lookup by identifier would answer.
\<close>

theorem me_unauthorized:
  assumes "headers request ''Authorization'' = None
         \<or> (\<exists>h. headers request ''Authorization'' = Some h \<and> \<not> prefix ''Bearer '' h)
         \<or> (\<exists>h token v.
               headers request ''Authorization'' = Some h \<and> prefix ''Bearer '' h
               \<and> py_index (py_split CHR '' '' h) 1 = Inr token
               \<and> verify_token env token = Inr v \<and> falsy v)"
  shows "\<exists>detail. get_current_user env request db = Inl (HTTPException 401 detail)"
  using assms
  by (auto simp: get_current_user_def falsy_def split: option.splits)

text \<open>A forged token in the example deployment, and no header at all.\<close>

theorem me_unauthorized_witness:
  "(\<exists>detail. get_current_user demo_services (me_request ''Bearer forged.token'') [] =
               Inl (HTTPException 401 detail))
   \<and> (\<exists>detail. get_current_user demo_services (callback_request ''good'') [] =
               Inl (HTTPException 401 detail))"
  using me_unauthorized [of "me_request ''Bearer forged.token''" demo_services "[]"]
    me_unauthorized [of "callback_request ''good''" demo_services "[]"]
  by (simp add: me_request_def callback_request_def demo_services_def falsy_def)

text \<open>
  Claim C8. A request to \<^verbatim>\<open>/auth/me\<close> with a valid token (\<^verbatim>\<open>verify_token\<close> returns
  its subject, a non-empty string) whose subject no stored user has
  (\<^verbatim>\<open>find_by_id\<close> returns \<^verbatim>\<open>None\<close>) raises \<^verbatim>\<open>HTTPException\<close> with status 404.
\<close>

theorem me_not_found:
  assumes "headers request ''Authorization'' = Some h"
      and "prefix ''Bearer '' h"
      and "py_index (py_split CHR '' '' h) 1 = Inr token"
      and "verify_token env token = Inr (Some user_id)"
      and "user_id \<noteq> []"
      and "find_by_id env db user_id = Inr None"
  shows "get_current_user env request db = Inl (HTTPException 404 ''User not found'')"
  using assms by (auto simp: get_current_user_def)

text \<open>A well-formed token for the subject \<^verbatim>\<open>7f9c\<close> against an empty user table.\<close>

theorem me_not_found_witness:
  "get_current_user demo_services (me_request ''Bearer jwt.7f9c'') [] =
     Inl (HTTPException 404 ''User not found'')"
  using me_not_found [of "me_request ''Bearer jwt.7f9c''" "''Bearer jwt.7f9c''" "''jwt.7f9c''"
      demo_services "''7f9c''" "[]"]
  by (simp add: me_request_def demo_services_def)

section \<open>Properties of the callback endpoint\<close>

lemma redirect_response_ok:
  "\<not> list_ex (surrogate env) url \<Longrightarrow> redirect_response env url = Inr (RedirectResponse url)"
  by (simp add: redirect_response_def)

lemma google_callback_failed:
  "fst (google_callback_try env request db) = Inl e \<Longrightarrow>
   exc_str env e = Inr msg \<Longrightarrow>
   \<not> list_ex (surrogate env) (frontend_url env @ ''/login?error='' @ msg) \<Longrightarrow>
   fst (google_callback env request db) =
     Inr (RedirectResponse (frontend_url env @ ''/login?error='' @ msg))"
  by (cases "google_callback_try env request db")
    (simp add: google_callback_def redirect_response_def)

lemma google_callback_succeeded:
  "fst (google_callback_try env request db) = Inr r \<Longrightarrow>
   fst (google_callback env request db) = Inr r"
  by (cases "google_callback_try env request db") (simp add: google_callback_def)

lemma google_callback_try_redirect:
  "fst (google_callback_try env request db) = Inr r \<Longrightarrow>
   \<exists>t. r = RedirectResponse (frontend_url env @ ''/auth/callback?token='' @ t)"
  by (auto simp: google_callback_try_def redirect_response_def
      split: sum.splits option.splits if_splits prod.splits)

text \<open>The failures the \<^verbatim>\<open>try\<close> block can meet, step by step.\<close>

lemma try_adapter_raises:
  "authorize_access_token env request = Inl e \<Longrightarrow>
   fst (google_callback_try env request db) = Inl e"
  by (simp add: google_callback_try_def)

lemma try_missing_token:
  "authorize_access_token env request = Inr token \<Longrightarrow>
   falsy (dict_get token ''access_token'') \<Longrightarrow>
   fst (google_callback_try env request db) =
     Inl (HTTPException 400 ''Failed to get access token'')"
  by (simp add: google_callback_try_def falsy_def split: option.splits)

lemma try_profile_raises:
  "authorize_access_token env request = Inr token \<Longrightarrow>
   dict_get token ''access_token'' = Some access_token \<Longrightarrow> access_token \<noteq> [] \<Longrightarrow>
   get_google_user_info env access_token = Inl e \<Longrightarrow>
   fst (google_callback_try env request db) = Inl e"
  by (simp add: google_callback_try_def)

lemma try_upsert_raises:
  "authorize_access_token env request = Inr token \<Longrightarrow>
   dict_get token ''access_token'' = Some access_token \<Longrightarrow> access_token \<noteq> [] \<Longrightarrow>
   get_google_user_info env access_token = Inr user_info \<Longrightarrow>
   user_info ''email'' = Some em \<Longrightarrow>
   login_or_register_oauth_user env db em
     (dict_get_default user_info ''name'' (Some []))
     (dict_get_default user_info ''picture'' (Some [])) ''google'' = (Inl e, db') \<Longrightarrow>
   fst (google_callback_try env request db) = Inl e"
  by (simp add: google_callback_try_def)

text \<open>
  Claim C4 says that every failure of the callback path is answered with a redirect to
  the login page of the configured frontend, and never with a server error. The handler
  misses that where the \<^verbatim>\<open>except\<close> clause itself raises. In the first run below
  the identity provider rejects the code with a description that holds a surrogate:
  the clause formats the text into the URL, the constructor of the redirect cannot
  encode it, and \<^verbatim>\<open>UnicodeEncodeError\<close> leaves the handler. In the second run
  \<^verbatim>\<open>str(e)\<close> raises, and its exception leaves the handler. Neither run is answered
  with a redirect.
\<close>

theorem callback_failure_leaves_handler:
  "fst (google_callback_try garbled_services (callback_request ''denied'') []) =
     Inl (Raised ''OAuthError'' (''invalid_grant: '' @ [CHR 0xFF]))
   \<and> fst (google_callback garbled_services (callback_request ''denied'') []) =
     Inl UnicodeEncodeError
   \<and> fst (google_callback_try mute_services (callback_request ''denied'') []) =
     Inl (Raised ''OAuthError'' ''invalid_grant: Bad Request'')
   \<and> fst (google_callback mute_services (callback_request ''denied'') []) =
     Inl (Raised ''TypeError'' ''__str__ returned non-string (type NoneType)'')"
  by (simp add: google_callback_def google_callback_try_def redirect_response_def
      garbled_services_def mute_services_def demo_services_def callback_request_def)

text \<open>
  Claim C1, as the code has it. A failure of the callback handler whose exception has a
  string representation \<^verbatim>\<open>str(e)\<close>, with no surrogate in the URL, is answered with a
  redirect to the login page of the frontend, and the URL the handler gives the
  redirect is the configured \<^verbatim>\<open>FRONTEND_URL\<close> (\<^verbatim>\<open>http://localhost:7010\<close> when
  none is configured), then \<^verbatim>\<open>/login?error=\<close>, then that string representation,
  whole and not escaped by the handler: the text of the exception is sent, not a short
  message in its place.
\<close>

theorem callback_error_is_exception_text:
  assumes "fst (google_callback_try env request db) = Inl e"
      and "exc_str env e = Inr msg"
      and "base = (case FRONTEND_URL env of
                     None \<Rightarrow> ''http://localhost:7010''
                   | Some u \<Rightarrow> if u = [] then ''http://localhost:7010'' else u)"
      and "\<not> list_ex (surrogate env) (base @ ''/login?error='' @ msg)"
  shows "fst (google_callback env request db) =
     Inr (RedirectResponse (base @ ''/login?error='' @ msg))"
proof -
  have "frontend_url env = base"
    using assms(3) by (simp add: frontend_url_def)
  with google_callback_failed [OF assms(1) assms(2)] assms(4) show ?thesis
    by simp
qed

text \<open>An authorization code that the identity provider rejects.\<close>

theorem callback_error_is_exception_text_witness:
  "fst (google_callback_try demo_services (callback_request ''denied'') []) =
     Inl (Raised ''OAuthError'' ''invalid_grant: Bad Request'')
   \<and> fst (google_callback demo_services (callback_request ''denied'') []) =
     Inr (RedirectResponse ''https://app.example/login?error=invalid_grant: Bad Request'')"
proof -
  have t: "fst (google_callback_try demo_services (callback_request ''denied'') []) =
     Inl (Raised ''OAuthError'' ''invalid_grant: Bad Request'')"
    by (simp add: google_callback_try_def demo_services_def callback_request_def)
  have m: "exc_str demo_services (Raised ''OAuthError'' ''invalid_grant: Bad Request'') =
     Inr ''invalid_grant: Bad Request''"
    by (simp add: demo_services_def)
  have b: "''https://app.example'' =
     (case FRONTEND_URL demo_services of
        None \<Rightarrow> ''http://localhost:7010''
      | Some u \<Rightarrow> if u = [] then ''http://localhost:7010'' else u)"
    by (simp add: demo_services_def)
  have n: "\<not> list_ex (surrogate demo_services)
     (''https://app.example'' @ ''/login?error='' @ ''invalid_grant: Bad Request'')"
    by (simp add: demo_services_def)
  show ?thesis
    using t callback_error_is_exception_text [OF t m b n] by simp
qed

text \<open>
  Claim C1 as stated fails: the \<^verbatim>\<open>error\<close> parameter does carry the string
  representation of the caught exception. Here the database driver raises during the
  upsert, and the text of its exception is what the browser is sent.
\<close>

theorem callback_error_exposes_exception_text:
  "fst (google_callback_try broken_db_services (callback_request ''good'') []) =
     Inl (Raised ''InterfaceError''
            ''cannot perform operation: another operation is in progress'')
   \<and> exc_str broken_db_services
       (Raised ''InterfaceError''
          ''cannot perform operation: another operation is in progress'') =
     Inr ''cannot perform operation: another operation is in progress''
   \<and> fst (google_callback broken_db_services (callback_request ''good'') []) =
     Inr (RedirectResponse
       ''https://app.example/login?error=cannot perform operation: another operation is in progress'')"
  by (simp add: google_callback_def google_callback_try_def redirect_response_def
      broken_db_services_def demo_services_def callback_request_def dict_get_def
      dict_get_default_def frontend_url_def)

text \<open>
  Claim C10. Once the profile is fetched, the handler calls the upsert with the name and
  the picture of the profile, and for a field the profile omits it passes the empty
  string (\<open>Some []\<close>), not \<^verbatim>\<open>None\<close> (\<open>None\<close>); what the handler then does (issue
  the token, build the redirect) depends on what that call returns only. So a user
  created from a profile without name and picture is created with both fields empty
  strings.
\<close>

theorem callback_defaults_to_empty_string:
  assumes "authorize_access_token env request = Inr token"
      and "dict_get token ''access_token'' = Some access_token"
      and "access_token \<noteq> []"
      and "get_google_user_info env access_token = Inr user_info"
      and "user_info ''email'' = Some em"
      and "nm = (case user_info ''name'' of None \<Rightarrow> Some [] | Some v \<Rightarrow> v)"
      and "pic = (case user_info ''picture'' of None \<Rightarrow> Some [] | Some v \<Rightarrow> v)"
  shows "google_callback_try env request db =
     (case login_or_register_oauth_user env db em nm pic ''google'' of
        (Inl e, db') \<Rightarrow> (Inl e, db')
      | (Inr u, db') \<Rightarrow>
          (case create_access_token env [(''sub'', row_id u)] of
             Inl e \<Rightarrow> (Inl e, db')
           | Inr jwt_token \<Rightarrow>
               (case redirect_response env
                       (frontend_url env @ ''/auth/callback?token='' @ jwt_token) of
                  Inl e \<Rightarrow> (Inl e, db')
                | Inr resp \<Rightarrow> (Inr resp, db'))))"
  using assms
  by (auto simp: google_callback_try_def dict_get_default_def split: option.splits)

text \<open>
  The profile of the example deployment has neither name nor picture: the row the
  upsert stores has the empty string in both fields.
\<close>

theorem callback_defaults_to_empty_string_witness:
  "google_callback_try demo_services (callback_request ''good'') [] =
     (Inr (RedirectResponse ''https://app.example/auth/callback?token=jwt.7f9c''),
      [\<lparr>row_id = ''7f9c'', email = ''ann@example.com'', name = Some [],
        picture = Some [], provider = ''google'', created_at = 0\<rparr>])"
  using callback_defaults_to_empty_string
      [of demo_services "callback_request ''good''" "[''access_token'' \<mapsto> Some ''ya29.a0'']"
        "''ya29.a0''" "[''email'' \<mapsto> Some ''ann@example.com'']" "Some ''ann@example.com''"
        "Some []" "Some []" "[]"]
  by (simp add: demo_services_def callback_request_def dict_get_def frontend_url_def
      redirect_response_def)

section \<open>Properties of the upsert service\<close>

lemma find_by_email_Some:
  "find_by_email tbl em = Some u \<Longrightarrow> u \<in> set tbl \<and> email u = em"
  by (auto simp: find_by_email_def find_Some_iff)

lemma find_by_email_None:
  "find_by_email tbl em = None \<longleftrightarrow> em \<notin> set (map email tbl)"
  by (auto simp: find_by_email_def find_None_iff)

lemma find_by_email_append_new:
  "find_by_email tbl em = None \<Longrightarrow> email u = em \<Longrightarrow>
   find_by_email (tbl @ [u]) em = Some u"
  by (induction tbl) (auto simp: find_by_email_def)

text \<open>
  Claim C5. Calling the upsert twice with the same email returns a user with the same
  identifier both times, whatever the table held before and whatever name, picture,
  provider, fresh identifier and clock reading each call is given; the second call
  leaves the table as the first one left it.
\<close>

theorem upsert_twice_same_id:
  "row_id (fst (login_or_create (snd (login_or_create tbl i1 t1 em n1 p1 pr1))
                  i2 t2 em n2 p2 pr2))
     = row_id (fst (login_or_create tbl i1 t1 em n1 p1 pr1))
   \<and> snd (login_or_create (snd (login_or_create tbl i1 t1 em n1 p1 pr1))
            i2 t2 em n2 p2 pr2)
     = snd (login_or_create tbl i1 t1 em n1 p1 pr1)"
proof (cases "find_by_email tbl em")
  case None
  then show ?thesis
    by (simp add: login_or_create_def Let_def find_by_email_append_new)
next
  case (Some u)
  then show ?thesis by (simp add: login_or_create_def)
qed

text \<open>
  Claim C6. For an email that the table already holds, the upsert returns the stored
  row of that email as it is and leaves the table as it is: neither the name nor the
  picture nor any other field takes the values of the repeat login.
\<close>

theorem repeat_login_unchanged:
  assumes "em \<in> set (map email tbl)"
  shows "\<exists>u. find_by_email tbl em = Some u \<and> u \<in> set tbl \<and> email u = em
           \<and> login_or_create tbl new_id now em nm pic prov = (u, tbl)"
proof -
  from assms obtain u where u: "find_by_email tbl em = Some u"
    using find_by_email_None [of tbl em] by (cases "find_by_email tbl em") auto
  then show ?thesis
    using find_by_email_Some [OF u] by (simp add: login_or_create_def)
qed

text \<open>Ann logs in again with another name and a picture: her row stays as it was.\<close>

theorem repeat_login_unchanged_witness:
  "login_or_create
     [\<lparr>row_id = ''a1'', email = ''ann@example.com'', name = Some ''Ann'', picture = None,
       provider = ''google'', created_at = 5\<rparr>]
     ''b2'' 9 ''ann@example.com'' (Some ''Ann B.'') (Some ''https://pic.example/ann.png'')
     ''google'' =
   (\<lparr>row_id = ''a1'', email = ''ann@example.com'', name = Some ''Ann'', picture = None,
      provider = ''google'', created_at = 5\<rparr>,
    [\<lparr>row_id = ''a1'', email = ''ann@example.com'', name = Some ''Ann'', picture = None,
       provider = ''google'', created_at = 5\<rparr>])"
  using repeat_login_unchanged
    [of "''ann@example.com''"
      "[\<lparr>row_id = ''a1'', email = ''ann@example.com'', name = Some ''Ann'', picture = None,
         provider = ''google'', created_at = 5\<rparr>]"
      "''b2''" 9 "Some ''Ann B.''" "Some ''https://pic.example/ann.png''" "''google''"]
  by (simp add: find_by_email_def)

section \<open>Uniqueness of emails\<close>

lemma distinct_map_count1:
  "distinct (map f xs) \<Longrightarrow> x \<in> set xs \<Longrightarrow> length (filter (\<lambda>r. f r = f x) xs) = 1"
proof (induction xs)
  case Nil
  then show ?case by simp
next
  case (Cons a xs)
  show ?case
  proof (cases "f a = f x")
    case True
    with Cons.prems have "filter (\<lambda>r. f r = f x) xs = []"
      by (auto simp: filter_empty_conv image_iff)
    with True show ?thesis by simp
  next
    case False
    with Cons show ?thesis by auto
  qed
qed

lemma distinct_map_count_le1:
  "distinct (map f xs) \<Longrightarrow> length (filter (\<lambda>r. f r = k) xs) \<le> 1"
proof (cases "\<exists>x \<in> set xs. f x = k")
  case True
  then obtain x where "x \<in> set xs" "f x = k" by blast
  moreover assume "distinct (map f xs)"
  ultimately show ?thesis using distinct_map_count1 [of f xs x] by simp
next
  case False
  then have "filter (\<lambda>r. f r = k) xs = []" by (auto simp: filter_empty_conv)
  then show ?thesis by simp
qed

text \<open>One step of one callback: emails stay distinct, and no row is lost.\<close>

lemma cb_step_distinct:
  "distinct (map email tbl) \<Longrightarrow> distinct (map email (snd (cb_step c tbl)))"
  by (auto simp: cb_step_def insert_user_def split: stage.splits option.splits if_splits)

lemma cb_step_grows: "set tbl \<subseteq> set (snd (cb_step c tbl))"
  by (auto simp: cb_step_def insert_user_def split: stage.splits option.splits if_splits)

lemma cb_step_settled:
  "settled c tbl \<Longrightarrow> settled (fst (cb_step c tbl)) (snd (cb_step c tbl))"
  by (auto simp: cb_step_def insert_user_def settled_def new_row_def
      dest: find_by_email_Some split: stage.splits option.splits if_splits)

lemma settled_mono: "settled c tbl \<Longrightarrow> set tbl \<subseteq> set tbl' \<Longrightarrow> settled c tbl'"
  by (auto simp: settled_def split: stage.splits)

lemma run_invariant:
  "distinct (map email tbl) \<Longrightarrow> \<forall>c \<in> set cs. settled c tbl \<Longrightarrow>
   distinct (map email (snd (run sched (cs, tbl))))
   \<and> (\<forall>c \<in> set (fst (run sched (cs, tbl))). settled c (snd (run sched (cs, tbl))))"
proof (induction sched arbitrary: cs tbl)
  case Nil
  then show ?case by simp
next
  case (Cons i sched)
  show ?case
  proof (cases "i < length cs")
    case False
    with Cons show ?thesis by simp
  next
    case True
    obtain c' tbl' where st: "cb_step (cs ! i) tbl = (c', tbl')"
      by (cases "cb_step (cs ! i) tbl")
    have d: "distinct (map email tbl')"
      using cb_step_distinct [OF Cons.prems(1), of "cs ! i"] st by simp
    have sub: "set tbl \<subseteq> set tbl'"
      using cb_step_grows [of tbl "cs ! i"] st by simp
    have "settled (cs ! i) tbl"
      using Cons.prems(2) True by simp
    then have c': "settled c' tbl'"
      using cb_step_settled [of "cs ! i" tbl] st by simp
    have "\<forall>c \<in> set (cs[i := c']). settled c tbl'"
    proof
      fix c assume "c \<in> set (cs[i := c'])"
      then have "c = c' \<or> c \<in> set cs"
        using set_update_subset_insert [of cs i c'] by auto
      then show "settled c tbl'"
        using c' Cons.prems(2) sub settled_mono by blast
    qed
    from Cons.IH [OF d this] show ?thesis
      using True st by simp
  qed
qed

text \<open>
  A callback that runs its two steps with no step of another callback in between does
  what the upsert of section 4.3 does.
\<close>

lemma serial_callback:
  assumes "cb_stage c = Lookup"
  shows "cb_step (fst (cb_step c tbl)) (snd (cb_step c tbl)) =
     (c\<lparr>cb_stage :=
          Finished (fst (login_or_create tbl (cb_new_id c) (cb_now c) (cb_email c)
                           (cb_name c) (cb_picture c) (cb_provider c)))\<rparr>,
      snd (login_or_create tbl (cb_new_id c) (cb_now c) (cb_email c)
             (cb_name c) (cb_picture c) (cb_provider c)))"
proof (cases "find_by_email tbl (cb_email c)")
  case None
  then have "cb_email c \<notin> set (map email tbl)"
    by (simp add: find_by_email_None)
  with None assms show ?thesis
    by (simp add: cb_step_def login_or_create_def insert_user_def new_row_def Let_def)
next
  case (Some u)
  with assms show ?thesis
    by (simp add: cb_step_def login_or_create_def)
qed

text \<open>
  Claim C2. Email uniqueness is an invariant of the user table. From a table with at
  most one row per email, the upsert leaves such a table; and so do any number of
  callbacks that start together and run interleaved in any order, callbacks for the
  same email included: the table they leave has at most one row per email, and exactly
  one row for the email of each callback that has finished.
\<close>

theorem email_unique_under_interleaving:
  assumes "distinct (map email tbl)"
      and "\<forall>c \<in> set cs. cb_stage c = Lookup"
  shows "distinct (map email (snd (run sched (cs, tbl))))
       \<and> (\<forall>em. length (filter (\<lambda>r. email r = em) (snd (run sched (cs, tbl)))) \<le> 1)
       \<and> (\<forall>c \<in> set (fst (run sched (cs, tbl))). \<forall>u. cb_stage c = Finished u \<longrightarrow>
             length (filter (\<lambda>r. email r = cb_email c) (snd (run sched (cs, tbl)))) = 1)
       \<and> distinct (map email (snd (login_or_create tbl new_id now em' nm pic prov)))"
proof -
  have "\<forall>c \<in> set cs. settled c tbl"
    using assms(2) by (simp add: settled_def)
  from run_invariant [OF assms(1) this, of sched]
  have d: "distinct (map email (snd (run sched (cs, tbl))))"
    and s: "\<forall>c \<in> set (fst (run sched (cs, tbl))). settled c (snd (run sched (cs, tbl)))"
    by simp_all
  have one: "length (filter (\<lambda>r. email r = cb_email c) (snd (run sched (cs, tbl)))) = 1"
    if "c \<in> set (fst (run sched (cs, tbl)))" "cb_stage c = Finished u" for c u
  proof -
    from s that have "u \<in> set (snd (run sched (cs, tbl)))" "email u = cb_email c"
      by (auto simp: settled_def)
    then show ?thesis
      using distinct_map_count1 [OF d, of u] by simp
  qed
  have seq: "distinct (map email (snd (login_or_create tbl new_id now em' nm pic prov)))"
    using assms(1) find_by_email_None [of tbl em']
    by (auto simp: login_or_create_def Let_def split: option.splits)
  show ?thesis
    using d one seq distinct_map_count_le1 [OF d] by blast
qed

text \<open>
  Two first-time callbacks for Ann race: both look her email up and miss, the first
  inserts, the insert of the second is refused and it looks the row up again. One row
  is stored.
\<close>

theorem email_unique_under_interleaving_witness:
  "distinct (map email
      (snd (run [0, 1, 0, 1, 1] ([first_login ''a1'', first_login ''a2''], []))))
   \<and> length (filter (\<lambda>r. email r = ''ann@example.com'')
        (snd (run [0, 1, 0, 1, 1] ([first_login ''a1'', first_login ''a2''], [])))) = 1
   \<and> snd (run [0, 1, 0, 1, 1] ([first_login ''a1'', first_login ''a2''], [])) =
       [\<lparr>row_id = ''a1'', email = ''ann@example.com'', name = Some ''Ann'', picture = None,
         provider = ''google'', created_at = 5\<rparr>]"
proof -
  have r: "snd (run [0, 1, 0, 1, 1] ([first_login ''a1'', first_login ''a2''], [])) =
       [\<lparr>row_id = ''a1'', email = ''ann@example.com'', name = Some ''Ann'', picture = None,
         provider = ''google'', created_at = 5\<rparr>]"
    by (simp add: first_login_def cb_step_def find_by_email_def insert_user_def new_row_def)
  show ?thesis
    using email_unique_under_interleaving
      [of "[]" "[first_login ''a1'', first_login ''a2'']" "[0, 1, 0, 1, 1]"]
    unfolding r by (simp add: first_login_def)
qed

section \<open>Properties of the token codec\<close>

text \<open>
  Claim C3. A token issued for a subject, verified at once or at any later moment
  before its validity window has elapsed, verifies and gives back that subject.
\<close>

theorem issue_verify_roundtrip:
  assumes "now \<le> t" and "t < now + window"
  shows "verify sign t (issue sign window now subject) = Some subject"
  using assms by (simp add: verify_def issue_def)

text \<open>A window of half an hour, verified in the second of issue.\<close>

theorem issue_verify_roundtrip_witness:
  "verify (\<lambda>p. (''s3cret'', p)) 1700000000
     (issue (\<lambda>p. (''s3cret'', p)) 1800 1700000000 ''7f9c'') = Some ''7f9c''"
  using issue_verify_roundtrip
    [of 1700000000 1700000000 1800 "\<lambda>p. (''s3cret'', p)" "''7f9c''"]
  by simp

end
